theory Spec2Isabelle
  imports Main
begin

section \<open>Data model (types.ts)\<close>

text \<open>
  The numbers of the program are millisecond counts (\<open>Date.now()\<close> and differences of
  such values) and distances read with \<open>parseInt\<close>; they are modelled as unbounded
  integers. \<open>NaN\<close>, infinities and fractional values are outside the model.
  A nullable number (\<open>number | null\<close>) is an \<open>int option\<close>.
\<close>

record lap =
  lapNumber :: int
  totalTime :: int
  totalDistance :: int
  timestamp :: int

record athlete =
  athlete_id :: int
  name :: string
  startTime :: "int option"
  time :: int
  laps :: "lap list"
  isRunning :: bool
  targetDistance :: int
  targetTime :: int
  pbDistance :: int
  pbTime :: int
  lapDistance :: int

section \<open>JavaScript's \<open>||\<close> on numbers\<close>

text \<open>
  \<open>x || d\<close> evaluates to \<open>d\<close> when \<open>x\<close> is falsy. For a number that is the value 0
  (and \<open>NaN\<close>, which \<open>parseInt\<close> returns for unparseable text); for a field read
  from a parsed object it is also \<open>undefined\<close>, when the field is missing. A value that
  may be \<open>NaN\<close> or \<open>undefined\<close> is an \<open>int option\<close> with \<open>None\<close> for both.
\<close>

definition num_or :: "int \<Rightarrow> int \<Rightarrow> int" where
  "num_or x d = (if x = 0 then d else x)"

definition opt_or :: "int option \<Rightarrow> int \<Rightarrow> int" where
  "opt_or x d = (case x of None \<Rightarrow> d | Some v \<Rightarrow> num_or v d)"

section \<open>The lap calculator (calculateNextLap)\<close>

text \<open>
  \<open>calculateNextLap athlete currentTime\<close> returns the lap array the caller stores:
  the athlete's own array when the race is finished, the array with one lap appended
  otherwise. \<open>Date.now()\<close> is the extra argument \<open>now\<close>.
\<close>

definition lastLapDistance :: "athlete \<Rightarrow> int" where
  "lastLapDistance a = (if length (laps a) > 0 then totalDistance (last (laps a)) else 0)"

definition newTotalDistance :: "athlete \<Rightarrow> int" where
  "newTotalDistance a =
     (if targetDistance a > 0 then
        (if lastLapDistance a < targetDistance a
            \<and> lastLapDistance a + lapDistance a \<ge> targetDistance a
         then targetDistance a
         else lastLapDistance a + lapDistance a)
      else 0)"

definition calculateNextLap :: "athlete \<Rightarrow> int \<Rightarrow> int \<Rightarrow> lap list" where
  "calculateNextLap a currentTime now =
     (if targetDistance a > 0 \<and> lastLapDistance a \<ge> targetDistance a then laps a
      else laps a @
        [\<lparr> lapNumber = int (length (laps a)) + 1,
           totalTime = currentTime,
           totalDistance = newTotalDistance a,
           timestamp = now \<rparr>])"

section \<open>Application state and command handlers (App.tsx)\<close>

text \<open>
  The component state that the handlers read and write: the athlete list and the id
  counter \<open>nextId\<close>. Every handler is a function from the old state to the new one;
  the clock value \<open>Date.now()\<close> read by a handler is an argument of it.
\<close>

record app =
  athletes :: "athlete list"
  nextId :: int

text \<open>
  \<open>handleAddAthlete\<close>: the arguments are the form fields after the library calls the
  handler makes on them: the trimmed name, \<open>parseInt\<close> of the two distance fields
  (\<open>None\<close> for \<open>NaN\<close>) and \<open>parseTime\<close> of the two time fields (\<open>parseTime\<close> is not
  part of the sources at hand, so its results are taken as given).
\<close>

definition handleAddAthlete ::
  "string \<Rightarrow> int option \<Rightarrow> int option \<Rightarrow> int \<Rightarrow> int \<Rightarrow> app \<Rightarrow> app" where
  "handleAddAthlete trimmedName newTargetDistance newLapDistance newTargetTime newPbTime s =
     (if trimmedName \<noteq> [] then
        s\<lparr> athletes := athletes s @
             [\<lparr> athlete_id = nextId s,
                name = trimmedName,
                startTime = None,
                time = 0,
                laps = [],
                isRunning = False,
                targetDistance = opt_or newTargetDistance 0,
                targetTime = newTargetTime,
                pbDistance = opt_or newTargetDistance 0,
                pbTime = newPbTime,
                lapDistance = opt_or newLapDistance 400 \<rparr>],
           nextId := nextId s + 1 \<rparr>
      else s)"

definition handleRemoveAthlete :: "int \<Rightarrow> athlete list \<Rightarrow> athlete list" where
  "handleRemoveAthlete i as = filter (\<lambda>a. athlete_id a \<noteq> i) as"

definition handleStartStop :: "int \<Rightarrow> int \<Rightarrow> athlete list \<Rightarrow> athlete list" where
  "handleStartStop i now as =
     map (\<lambda>a. if athlete_id a = i then
                 (if isRunning a then
                    a\<lparr> laps := calculateNextLap a (time a) now,
                       isRunning := False,
                       startTime := None \<rparr>
                  else a\<lparr> isRunning := True, startTime := Some (now - time a) \<rparr>)
               else a) as"

definition handleLap :: "int \<Rightarrow> int \<Rightarrow> athlete list \<Rightarrow> athlete list" where
  "handleLap i now as =
     map (\<lambda>a. if athlete_id a = i \<and> isRunning a
               then a\<lparr> laps := calculateNextLap a (time a) now \<rparr>
               else a) as"

definition handleReset :: "int \<Rightarrow> athlete list \<Rightarrow> athlete list" where
  "handleReset i as =
     map (\<lambda>a. if athlete_id a = i
               then a\<lparr> time := 0, laps := [], isRunning := False, startTime := None \<rparr>
               else a) as"

record updatedData =
  upd_name :: string
  upd_targetDistance :: int
  upd_targetTime :: int
  upd_pbTime :: int
  upd_lapDistance :: int

definition handleUpdateAthlete :: "int \<Rightarrow> updatedData \<Rightarrow> athlete list \<Rightarrow> athlete list" where
  "handleUpdateAthlete i d as =
     map (\<lambda>a. if athlete_id a = i
               then a\<lparr> name := upd_name d,
                       targetDistance := upd_targetDistance d,
                       targetTime := upd_targetTime d,
                       pbDistance := upd_targetDistance d,
                       pbTime := upd_pbTime d,
                       lapDistance := upd_lapDistance d \<rparr>
               else a) as"

text \<open>
  \<open>updateTimers\<close>, the body of the animation-frame callback. The test
  \<open>athlete.isRunning && athlete.startTime\<close> is false for a start time that is
  \<open>null\<close> or 0.
\<close>

definition updateTimers :: "int \<Rightarrow> athlete list \<Rightarrow> athlete list" where
  "updateTimers now as =
     map (\<lambda>a. case startTime a of
                 None \<Rightarrow> a
               | Some st \<Rightarrow> if isRunning a \<and> st \<noteq> 0 then a\<lparr> time := now - st \<rparr> else a) as"

section \<open>Persistence: the save effect and the load initializer\<close>

text \<open>
  What \<open>JSON.parse\<close> returns for a stored athlete need not have every field of
  \<open>Athlete\<close>: the initializer provides for a missing \<open>lapDistance\<close>, a missing
  \<open>laps\<close> array and a missing lap \<open>timestamp\<close>. These three are optional in the
  stored form, \<open>None\<close> standing for \<open>undefined\<close>. The content of the storage slot is
  absent (\<open>getItem\<close> gives \<open>null\<close> or the empty string), text that \<open>JSON.parse\<close>
  rejects, or a parsed list.
\<close>

record stored_lap =
  st_lapNumber :: int
  st_totalTime :: int
  st_totalDistance :: int
  st_timestamp :: "int option"

record stored_athlete =
  sa_id :: int
  sa_name :: string
  sa_startTime :: "int option"
  sa_time :: int
  sa_laps :: "stored_lap list option"
  sa_isRunning :: bool
  sa_targetDistance :: int
  sa_targetTime :: int
  sa_pbDistance :: int
  sa_pbTime :: int
  sa_lapDistance :: "int option"

datatype slot = Absent | Unparsable | Stored "stored_athlete list"

definition storeLap :: "lap \<Rightarrow> stored_lap" where
  "storeLap l =
     \<lparr> st_lapNumber = lapNumber l, st_totalTime = totalTime l,
       st_totalDistance = totalDistance l, st_timestamp = Some (timestamp l) \<rparr>"

definition storeAthlete :: "athlete \<Rightarrow> stored_athlete" where
  "storeAthlete a =
     \<lparr> sa_id = athlete_id a, sa_name = name a, sa_startTime = startTime a,
       sa_time = time a, sa_laps = Some (map storeLap (laps a)),
       sa_isRunning = isRunning a, sa_targetDistance = targetDistance a,
       sa_targetTime = targetTime a, sa_pbDistance = pbDistance a,
       sa_pbTime = pbTime a, sa_lapDistance = Some (lapDistance a) \<rparr>"

text \<open>The save effect: \<open>localStorage.setItem(key, JSON.stringify(athletes))\<close>.\<close>

definition saveAthletes :: "athlete list \<Rightarrow> slot" where
  "saveAthletes as = Stored (map storeAthlete as)"

definition loadLap :: "stored_lap \<Rightarrow> lap" where
  "loadLap l =
     \<lparr> lapNumber = st_lapNumber l, totalTime = st_totalTime l,
       totalDistance = st_totalDistance l, timestamp = opt_or (st_timestamp l) 0 \<rparr>"

definition loadAthlete :: "stored_athlete \<Rightarrow> athlete" where
  "loadAthlete p =
     \<lparr> athlete_id = sa_id p, name = sa_name p,
       startTime = None,
       time = sa_time p,
       laps = map loadLap (case sa_laps p of None \<Rightarrow> [] | Some ls \<Rightarrow> ls),
       isRunning = False,
       targetDistance = sa_targetDistance p, targetTime = sa_targetTime p,
       pbDistance = sa_pbDistance p, pbTime = sa_pbTime p,
       lapDistance = opt_or (sa_lapDistance p) 400 \<rparr>"

definition loadAthletes :: "slot \<Rightarrow> athlete list" where
  "loadAthletes sl =
     (case sl of Absent \<Rightarrow> [] | Unparsable \<Rightarrow> [] | Stored ps \<Rightarrow> map loadAthlete ps)"

text \<open>The id counter: \<open>Math.max(...athletes.map(a => a.id)) + 1\<close>, or 0 for no athlete.\<close>

definition initialNextId :: "athlete list \<Rightarrow> int" where
  "initialNextId as =
     (if length as > 0
      then fold max (tl (map athlete_id as)) (hd (map athlete_id as)) + 1
      else 0)"

definition initApp :: "slot \<Rightarrow> app" where
  "initApp sl = \<lparr> athletes = loadAthletes sl, nextId = initialNextId (loadAthletes sl) \<rparr>"

section \<open>Commands and runs\<close>

datatype command =
    Add string "int option" "int option" int int
  | Remove int
  | StartStop int int
  | Lap int int
  | Reset int
  | Edit int updatedData
  | Tick int
  | Reload

fun exec :: "command \<Rightarrow> app \<Rightarrow> app" where
  "exec (Add n td ld tt pb) s = handleAddAthlete n td ld tt pb s"
| "exec (Remove i) s = s\<lparr> athletes := handleRemoveAthlete i (athletes s) \<rparr>"
| "exec (StartStop i now) s = s\<lparr> athletes := handleStartStop i now (athletes s) \<rparr>"
| "exec (Lap i now) s = s\<lparr> athletes := handleLap i now (athletes s) \<rparr>"
| "exec (Reset i) s = s\<lparr> athletes := handleReset i (athletes s) \<rparr>"
| "exec (Edit i d) s = s\<lparr> athletes := handleUpdateAthlete i d (athletes s) \<rparr>"
| "exec (Tick now) s = s\<lparr> athletes := updateTimers now (athletes s) \<rparr>"
| "exec Reload s = initApp (saveAthletes (athletes s))"

text \<open>A run executes a list of commands from left to right.\<close>

fun run :: "app \<Rightarrow> command list \<Rightarrow> app" where
  "run s [] = s"
| "run s (c # cs) = run (exec c s) cs"

text \<open>The application with an empty storage slot: no athlete, counter 0.\<close>

definition emptyApp :: app where
  "emptyApp = initApp Absent"

text \<open>The athlete id a per-athlete command is aimed at.\<close>

fun target :: "command \<Rightarrow> int option" where
  "target (Remove i) = Some i"
| "target (StartStop i now) = Some i"
| "target (Lap i now) = Some i"
| "target (Reset i) = Some i"
| "target (Edit i d) = Some i"
| "target c = None"

section \<open>The text report (handleDownload)\<close>

text \<open>
  The report loop looks a lap up in \<open>athlete.laps\<close> by object identity
  (\<open>findIndex(l => l === lap)\<close>). The laps of an array are distinct objects (each is
  created by an object literal when it is appended or loaded), so the identity of a lap
  object is its position in the array: a lap object is the pair of that position and the
  lap's fields. Two laps with equal fields are still different objects.
\<close>

type_synonym lap_object = "nat \<times> lap"

definition lapObjects :: "athlete \<Rightarrow> lap_object list" where
  "lapObjects a = enumerate 0 (laps a)"

text \<open>
  The date range: \<open>start\<close> is a millisecond value (0 for no start date), \<open>end\<close> is a
  millisecond value or \<open>Infinity\<close> (\<open>None\<close>) for no end date.
\<close>

definition inRange :: "int \<Rightarrow> int option \<Rightarrow> lap \<Rightarrow> bool" where
  "inRange start end l =
     (num_or (timestamp l) 0 \<ge> start
      \<and> (case end of None \<Rightarrow> True | Some e \<Rightarrow> num_or (timestamp l) 0 \<le> e))"

definition lapsInRange :: "athlete \<Rightarrow> int \<Rightarrow> int option \<Rightarrow> lap_object list" where
  "lapsInRange a start end = filter (\<lambda>ob. inRange start end (snd ob)) (lapObjects a)"

text \<open>\<open>Array.prototype.findIndex\<close>: the first position that satisfies the test, or -1.\<close>

fun findIndex :: "('a \<Rightarrow> bool) \<Rightarrow> 'a list \<Rightarrow> int" where
  "findIndex P [] = - 1"
| "findIndex P (x # xs) =
     (if P x then 0 else (if findIndex P xs < 0 then - 1 else findIndex P xs + 1))"

definition originalLapIndex :: "athlete \<Rightarrow> lap_object \<Rightarrow> int" where
  "originalLapIndex a ob = findIndex (\<lambda>l. fst l = fst ob) (lapObjects a)"

definition lapTime :: "athlete \<Rightarrow> lap_object \<Rightarrow> int" where
  "lapTime a ob =
     (if originalLapIndex a ob > 0
      then totalTime (snd ob) - totalTime (laps a ! nat (originalLapIndex a ob - 1))
      else totalTime (snd ob))"

text \<open>
  One line of the table, before formatting: the five values that the loop writes
  (\<open>formatTime\<close> and the date formatting are library code outside the sources at hand).
\<close>

record export_row =
  row_lapNumber :: int
  row_totalDistance :: int
  row_lapTime :: int
  row_totalTime :: int
  row_timestamp :: int

definition exportRows :: "athlete \<Rightarrow> int \<Rightarrow> int option \<Rightarrow> export_row list" where
  "exportRows a start end =
     map (\<lambda>ob. \<lparr> row_lapNumber = lapNumber (snd ob),
                 row_totalDistance = totalDistance (snd ob),
                 row_lapTime = lapTime a ob,
                 row_totalTime = totalTime (snd ob),
                 row_timestamp = timestamp (snd ob) \<rparr>)
         (lapsInRange a start end)"

text \<open>
  The report: one block for each athlete with a lap in the range, or nothing
  (the "no data" alert) when no athlete has one.
\<close>

definition handleDownload ::
  "athlete list \<Rightarrow> int \<Rightarrow> int option \<Rightarrow> (athlete \<times> export_row list) list option" where
  "handleDownload as start end =
     (if filter (\<lambda>a. lapsInRange a start end \<noteq> []) as = [] then None
      else Some (map (\<lambda>a. (a, exportRows a start end))
                     (filter (\<lambda>a. lapsInRange a start end \<noteq> []) as)))"

text \<open>
  The lap times as the specification words them: the difference to the previous lap
  of the filtered laps, the first filtered lap counting from 0.
\<close>

fun spec_lapTimes_from :: "int \<Rightarrow> lap list \<Rightarrow> int list" where
  "spec_lapTimes_from prev [] = []"
| "spec_lapTimes_from prev (l # ls) = (totalTime l - prev) # spec_lapTimes_from (totalTime l) ls"

definition spec_lapTimes :: "lap list \<Rightarrow> int list" where
  "spec_lapTimes ls = spec_lapTimes_from 0 ls"

section \<open>Restricted runs\<close>

text \<open>
  The lap distance a command gives an athlete is not negative.
\<close>

fun lapDistance_nonneg :: "command \<Rightarrow> bool" where
  "lapDistance_nonneg (Add n td ld tt pb) = (opt_or ld 400 \<ge> 0)"
| "lapDistance_nonneg (Edit i d) = (upd_lapDistance d \<ge> 0)"
| "lapDistance_nonneg c = True"

text \<open>
  An edit does not put the target distance below the distance of a lap that the edited
  athlete already has.
\<close>

fun target_covers_laps :: "app \<Rightarrow> command \<Rightarrow> bool" where
  "target_covers_laps s (Edit i d) =
     list_all (\<lambda>a. athlete_id a \<noteq> i
                   \<or> list_all (\<lambda>l. totalDistance l \<le> upd_targetDistance d) (laps a))
              (athletes s)"
| "target_covers_laps s c = True"

fun covered_run :: "app \<Rightarrow> command list \<Rightarrow> bool" where
  "covered_run s [] = True"
| "covered_run s (c # cs) =
     (lapDistance_nonneg c \<and> target_covers_laps s c \<and> covered_run (exec c s) cs)"

text \<open>
  An edit does not set the target distance to 0 for an athlete that has a lap with a
  distance other than 0.
\<close>

fun simple_edit_clean :: "app \<Rightarrow> command \<Rightarrow> bool" where
  "simple_edit_clean s (Edit i d) =
     (upd_targetDistance d \<noteq> 0
      \<or> list_all (\<lambda>a. athlete_id a \<noteq> i \<or> list_all (\<lambda>l. totalDistance l = 0) (laps a))
                 (athletes s))"
| "simple_edit_clean s c = True"

fun clean_run :: "app \<Rightarrow> command list \<Rightarrow> bool" where
  "clean_run s [] = True"
| "clean_run s (c # cs) = (simple_edit_clean s c \<and> clean_run (exec c s) cs)"

section \<open>Invariants of an athlete's laps\<close>

text \<open>The lap numbers of a lap list are 1, 2, ... in order.\<close>

definition numbered :: "lap list \<Rightarrow> bool" where
  "numbered ls = (map lapNumber ls = map (\<lambda>i. int i + 1) [0..<length ls])"

text \<open>
  The lap distance is not negative, the lap distances are in non-decreasing order, and
  each lies between 0 and the target distance (between 0 and 0 when the target is not
  positive).
\<close>

definition distances_ok :: "athlete \<Rightarrow> bool" where
  "distances_ok a =
     (lapDistance a \<ge> 0
      \<and> sorted (map totalDistance (laps a))
      \<and> list_all (\<lambda>l. 0 \<le> totalDistance l \<and> totalDistance l \<le> max 0 (targetDistance a)) (laps a))"

text \<open>With target distance 0, every lap has distance 0.\<close>

definition simple_ok :: "athlete \<Rightarrow> bool" where
  "simple_ok a = (targetDistance a \<noteq> 0 \<or> list_all (\<lambda>l. totalDistance l = 0) (laps a))"

section \<open>Example runs\<close>

definition edit_to :: "int \<Rightarrow> int \<Rightarrow> updatedData" where
  "edit_to td ld =
     \<lparr> upd_name = ''A'', upd_targetDistance = td, upd_targetTime = 0,
       upd_pbTime = 0, upd_lapDistance = ld \<rparr>"

text \<open>Two laps at 400 and 800, then the target is edited down to 0 and up to 500.\<close>

definition shrinking_run :: "command list" where
  "shrinking_run =
     [Add ''A'' (Some 1000) (Some 400) 0 0,
      StartStop 0 1000, Tick 61000, Lap 0 61000, Tick 131000, Lap 0 131000,
      Edit 0 (edit_to 0 400), Tick 141000, Lap 0 141000,
      Edit 0 (edit_to 500 400)]"

text \<open>One lap in distance mode, then the athlete is edited into simple mode.\<close>

definition mode_switch_run :: "command list" where
  "mode_switch_run =
     [Add ''A'' (Some 1000) (Some 400) 0 0,
      StartStop 0 1000, Tick 61000, Lap 0 61000,
      Edit 0 (edit_to 0 400)]"

text \<open>Laps, an edit that raises nothing above the target, a stop, a reload.\<close>

definition training_run :: "command list" where
  "training_run =
     [Add ''A'' (Some 1000) (Some 400) 0 0,
      Add ''B'' None None 0 0,
      StartStop 0 1000, StartStop 1 1000, Tick 61000, Lap 0 61000, Lap 1 61000,
      Tick 131000, Lap 0 131000,
      Edit 0 (edit_to 900 400), Tick 200000, StartStop 0 200000, Lap 1 200000,
      Reload]"

text \<open>An athlete whose first lap lies before the start of the date range.\<close>

definition late_range_athlete :: athlete where
  "late_range_athlete =
     \<lparr> athlete_id = 0, name = ''A'', startTime = None, time = 130000,
       laps = [\<lparr> lapNumber = 1, totalTime = 60000, totalDistance = 0, timestamp = 1000 \<rparr>,
               \<lparr> lapNumber = 2, totalTime = 130000, totalDistance = 0, timestamp = 5000 \<rparr>],
       isRunning = False, targetDistance = 0, targetTime = 0, pbDistance = 0,
       pbTime = 0, lapDistance = 400 \<rparr>"

text \<open>A stopped athlete over 1000 m in laps of 400 m, before and after the race.\<close>

definition miler :: athlete where
  "miler =
     \<lparr> athlete_id = 0, name = ''A'', startTime = None, time = 0, laps = [],
       isRunning = False, targetDistance = 1000, targetTime = 0, pbDistance = 1000,
       pbTime = 0, lapDistance = 400 \<rparr>"

definition finished_miler :: athlete where
  "finished_miler =
     miler\<lparr> time := 200000,
            laps := [\<lparr> lapNumber = 1, totalTime = 60000, totalDistance = 400, timestamp = 61000 \<rparr>,
                     \<lparr> lapNumber = 2, totalTime = 130000, totalDistance = 800, timestamp = 131000 \<rparr>,
                     \<lparr> lapNumber = 3, totalTime = 200000, totalDistance = 1000, timestamp = 201000 \<rparr>] \<rparr>"

text \<open>The application after adding that athlete and starting its timer at clock value 1000.\<close>

definition started_miler_app :: app where
  "started_miler_app = run emptyApp [Add ''A'' (Some 1000) (Some 400) 0 0, StartStop 0 1000]"

section \<open>Loading what was saved\<close>

lemma loadLap_storeLap: "loadLap (storeLap l) = l"
  by (simp add: loadLap_def storeLap_def opt_or_def num_or_def)

lemma loadAthlete_storeAthlete:
  "loadAthlete (storeAthlete a) =
     a\<lparr> isRunning := False, startTime := None, lapDistance := num_or (lapDistance a) 400 \<rparr>"
  by (simp add: loadAthlete_def storeAthlete_def opt_or_def comp_def loadLap_storeLap)

lemma emptyApp_athletes: "athletes emptyApp = []"
  by (simp add: emptyApp_def initApp_def loadAthletes_def)

section \<open>Invariants are kept by every command\<close>

text \<open>
  Every command changes an athlete in one of a few ways; a property of athletes that
  survives each of them holds after the command.
\<close>

lemma exec_invariant:
  assumes inv: "\<forall>a\<in>set (athletes s). P a"
    and fresh: "\<And>n td ld tt pb. c = Add n td ld tt pb \<Longrightarrow>
        P \<lparr> athlete_id = nextId s, name = n, startTime = None, time = 0, laps = [],
            isRunning = False, targetDistance = opt_or td 0, targetTime = tt,
            pbDistance = opt_or td 0, pbTime = pb, lapDistance = opt_or ld 400 \<rparr>"
    and lap: "\<And>a now. P a \<Longrightarrow> P (a\<lparr> laps := calculateNextLap a (time a) now \<rparr>)"
    and runstate: "\<And>a r st. P a \<Longrightarrow> P (a\<lparr> isRunning := r, startTime := st \<rparr>)"
    and clock: "\<And>a t. P a \<Longrightarrow> P (a\<lparr> time := t \<rparr>)"
    and reset: "\<And>a. P a \<Longrightarrow> P (a\<lparr> time := 0, laps := [], isRunning := False, startTime := None \<rparr>)"
    and edit: "\<And>a i d. c = Edit i d \<Longrightarrow> a \<in> set (athletes s) \<Longrightarrow> athlete_id a = i \<Longrightarrow> P a \<Longrightarrow>
        P (a\<lparr> name := upd_name d, targetDistance := upd_targetDistance d,
              targetTime := upd_targetTime d, pbDistance := upd_targetDistance d,
              pbTime := upd_pbTime d, lapDistance := upd_lapDistance d \<rparr>)"
    and reload: "\<And>a. P a \<Longrightarrow>
        P (a\<lparr> isRunning := False, startTime := None, lapDistance := num_or (lapDistance a) 400 \<rparr>)"
  shows "\<forall>a\<in>set (athletes (exec c s)). P a"
proof (cases c)
  case (Add n td ld tt pb)
  with inv fresh show ?thesis by (auto simp: handleAddAthlete_def)
next
  case (Remove i)
  with inv show ?thesis by (simp add: handleRemoveAthlete_def)
next
  case (StartStop i now)
  have "P (a\<lparr> laps := calculateNextLap a (time a) now, isRunning := False, startTime := None \<rparr>)"
    if "P a" for a
    by (rule runstate [OF lap [OF that]])
  with inv runstate StartStop show ?thesis by (auto simp: handleStartStop_def)
next
  case (Lap i now)
  with inv lap show ?thesis by (auto simp: handleLap_def)
next
  case (Reset i)
  with inv reset show ?thesis by (auto simp: handleReset_def)
next
  case (Edit i d)
  with inv edit show ?thesis by (auto simp: handleUpdateAthlete_def)
next
  case (Tick now)
  with inv clock show ?thesis by (auto simp: updateTimers_def split: option.splits)
next
  case Reload
  with inv reload show ?thesis
    by (auto simp: initApp_def loadAthletes_def saveAthletes_def loadAthlete_storeAthlete)
qed

subsection \<open>Lap numbers\<close>

lemma numbered_next: "numbered (laps a) \<Longrightarrow> numbered (calculateNextLap a t now)"
  by (simp add: numbered_def calculateNextLap_def)

lemma numbered_exec:
  assumes "\<forall>a\<in>set (athletes s). numbered (laps a)"
  shows "\<forall>a\<in>set (athletes (exec c s)). numbered (laps a)"
  by (rule exec_invariant [where P = "\<lambda>a. numbered (laps a)", OF assms])
     (simp_all add: numbered_next, simp_all add: numbered_def)

lemma numbered_run:
  "\<forall>a\<in>set (athletes s). numbered (laps a) \<Longrightarrow> \<forall>a\<in>set (athletes (run s cs)). numbered (laps a)"
proof (induction cs arbitrary: s)
  case Nil
  then show ?case by simp
next
  case (Cons c cs)
  from Cons.prems have "\<forall>a\<in>set (athletes (exec c s)). numbered (laps a)"
    by (rule numbered_exec)
  then show ?case using Cons.IH by simp
qed

lemma numbered_nth: "numbered ls \<Longrightarrow> i < length ls \<Longrightarrow> lapNumber (ls ! i) = int i + 1"
proof -
  assume n: "numbered ls" and i: "i < length ls"
  have "lapNumber (ls ! i) = map lapNumber ls ! i" using i by simp
  also have "\<dots> = map (\<lambda>i. int i + 1) [0..<length ls] ! i" using n by (simp add: numbered_def)
  also have "\<dots> = int i + 1" using i by simp
  finally show ?thesis .
qed

subsection \<open>Distances\<close>

lemma all_le_last:
  "sorted xs \<Longrightarrow> x \<in> set xs \<Longrightarrow> x \<le> (last xs :: int)"
  by (induction xs) (auto split: if_splits)

lemma distances_ok_next:
  assumes "distances_ok a"
  shows "distances_ok (a\<lparr> laps := calculateNextLap a t now \<rparr>)"
proof (cases "targetDistance a > 0 \<and> lastLapDistance a \<ge> targetDistance a")
  case True
  then have "calculateNextLap a t now = laps a" by (simp add: calculateNextLap_def)
  with assms show ?thesis by (simp add: distances_ok_def)
next
  case False
  let ?d = "newTotalDistance a"
  have ld: "lapDistance a \<ge> 0"
    and srt: "sorted (map totalDistance (laps a))"
    and bnd: "\<forall>l\<in>set (laps a). 0 \<le> totalDistance l \<and> totalDistance l \<le> max 0 (targetDistance a)"
    using assms by (simp_all add: distances_ok_def list_all_iff)
  have last_ok: "0 \<le> lastLapDistance a"
    using bnd by (simp add: lastLapDistance_def)
  have below_last: "totalDistance l \<le> lastLapDistance a" if "l \<in> set (laps a)" for l
  proof -
    from that have ne: "laps a \<noteq> []" by auto
    have "totalDistance l \<in> set (map totalDistance (laps a))" using that by simp
    then have "totalDistance l \<le> last (map totalDistance (laps a))"
      by (rule all_le_last [OF srt])
    then show ?thesis using ne by (simp add: lastLapDistance_def last_map)
  qed
  have d_last: "lastLapDistance a \<le> ?d"
  proof (cases "targetDistance a > 0")
    case True
    with False ld show ?thesis by (simp add: newTotalDistance_def)
  next
    case nonpos: False
    have "lastLapDistance a \<le> 0"
    proof (cases "laps a = []")
      case True
      then show ?thesis by (simp add: lastLapDistance_def)
    next
      case ne: False
      then have "last (laps a) \<in> set (laps a)" by simp
      with bnd nonpos have "totalDistance (last (laps a)) \<le> 0" by fastforce
      with ne show ?thesis by (simp add: lastLapDistance_def)
    qed
    with nonpos show ?thesis by (simp add: newTotalDistance_def)
  qed
  have d_low: "0 \<le> ?d" using last_ok d_last by simp
  have d_high: "?d \<le> max 0 (targetDistance a)"
    using False by (auto simp: newTotalDistance_def)
  have "sorted (map totalDistance (laps a) @ [?d])"
    using srt below_last d_last by (fastforce simp: sorted_append)
  moreover from False have "calculateNextLap a t now =
      laps a @ [\<lparr> lapNumber = int (length (laps a)) + 1, totalTime = t,
                  totalDistance = ?d, timestamp = now \<rparr>]"
    unfolding calculateNextLap_def by (rule if_not_P)
  ultimately show ?thesis using ld bnd d_low d_high
    by (simp add: distances_ok_def list_all_iff)
qed

lemma distances_ok_exec:
  assumes inv: "\<forall>a\<in>set (athletes s). distances_ok a"
    and nn: "lapDistance_nonneg c"
    and cov: "target_covers_laps s c"
  shows "\<forall>a\<in>set (athletes (exec c s)). distances_ok a"
proof (rule exec_invariant [where P = distances_ok, OF inv])
  fix n td ld tt pb
  assume "c = Add n td ld tt pb"
  with nn show "distances_ok \<lparr> athlete_id = nextId s, name = n, startTime = None, time = 0,
      laps = [], isRunning = False, targetDistance = opt_or td 0, targetTime = tt,
      pbDistance = opt_or td 0, pbTime = pb, lapDistance = opt_or ld 400 \<rparr>"
    by (simp add: distances_ok_def)
next
  fix a now
  assume "distances_ok a"
  then show "distances_ok (a\<lparr> laps := calculateNextLap a (time a) now \<rparr>)"
    by (rule distances_ok_next)
next
  fix a i d
  assume c: "c = Edit i d" and a: "a \<in> set (athletes s)" "athlete_id a = i" and ok: "distances_ok a"
  from cov c a have "\<forall>l\<in>set (laps a). totalDistance l \<le> upd_targetDistance d"
    by (auto simp: list_all_iff)
  with ok nn c show "distances_ok (a\<lparr> name := upd_name d, targetDistance := upd_targetDistance d,
      targetTime := upd_targetTime d, pbDistance := upd_targetDistance d,
      pbTime := upd_pbTime d, lapDistance := upd_lapDistance d \<rparr>)"
    by (auto simp: distances_ok_def list_all_iff)
qed (simp_all add: distances_ok_def num_or_def)

lemma distances_ok_run:
  "\<forall>a\<in>set (athletes s). distances_ok a \<Longrightarrow> covered_run s cs
   \<Longrightarrow> \<forall>a\<in>set (athletes (run s cs)). distances_ok a"
proof (induction cs arbitrary: s)
  case Nil
  then show ?case by simp
next
  case (Cons c cs)
  from Cons.prems have "\<forall>a\<in>set (athletes (exec c s)). distances_ok a"
    by (intro distances_ok_exec) simp_all
  moreover from Cons.prems have "covered_run (exec c s) cs" by simp
  ultimately show ?case using Cons.IH by simp
qed

subsection \<open>Simple mode\<close>

lemma simple_ok_exec:
  assumes inv: "\<forall>a\<in>set (athletes s). simple_ok a"
    and cl: "simple_edit_clean s c"
  shows "\<forall>a\<in>set (athletes (exec c s)). simple_ok a"
proof (rule exec_invariant [where P = simple_ok, OF inv])
  fix a now
  assume "simple_ok a"
  then show "simple_ok (a\<lparr> laps := calculateNextLap a (time a) now \<rparr>)"
    by (auto simp: simple_ok_def calculateNextLap_def newTotalDistance_def)
next
  fix a i d
  assume c: "c = Edit i d" and a: "a \<in> set (athletes s)" "athlete_id a = i"
  with cl show "simple_ok (a\<lparr> name := upd_name d, targetDistance := upd_targetDistance d,
      targetTime := upd_targetTime d, pbDistance := upd_targetDistance d,
      pbTime := upd_pbTime d, lapDistance := upd_lapDistance d \<rparr>)"
    by (auto simp: simple_ok_def list_all_iff)
qed (simp_all add: simple_ok_def)

lemma simple_ok_run:
  "\<forall>a\<in>set (athletes s). simple_ok a \<Longrightarrow> clean_run s cs
   \<Longrightarrow> \<forall>a\<in>set (athletes (run s cs)). simple_ok a"
proof (induction cs arbitrary: s)
  case Nil
  then show ?case by simp
next
  case (Cons c cs)
  from Cons.prems have "\<forall>a\<in>set (athletes (exec c s)). simple_ok a"
    by (intro simple_ok_exec) simp_all
  moreover from Cons.prems have "clean_run (exec c s) cs" by simp
  ultimately show ?case using Cons.IH by simp
qed

section \<open>The report's lap times\<close>

lemma findIndex_enumerate:
  "m \<le> i \<Longrightarrow> i < m + length xs \<Longrightarrow> findIndex (\<lambda>p. fst p = i) (enumerate m xs) = int (i - m)"
proof (induction xs arbitrary: m)
  case Nil
  then show ?case by simp
next
  case (Cons x xs)
  show ?case
  proof (cases "m = i")
    case True
    then show ?thesis by simp
  next
    case False
    with Cons.prems have "Suc m \<le> i" "i < Suc m + length xs" by simp_all
    then have "findIndex (\<lambda>p. fst p = i) (enumerate (Suc m) xs) = int (i - Suc m)"
      by (rule Cons.IH)
    with False Cons.prems show ?thesis by (simp add: Suc_diff_Suc of_nat_diff)
  qed
qed

lemma lapTime_nth:
  assumes "i < length (laps a)"
  shows "lapTime a (i, laps a ! i) =
     (if 0 < i then totalTime (laps a ! i) - totalTime (laps a ! (i - 1))
      else totalTime (laps a ! i))"
proof -
  have "originalLapIndex a (i, laps a ! i) = int i"
    using findIndex_enumerate [of 0 i "laps a"] assms
    by (simp add: originalLapIndex_def lapObjects_def)
  moreover have "nat (int i - 1) = i - 1" by simp
  ultimately show ?thesis by (simp add: lapTime_def)
qed

lemma enumerate_nth: "enumerate 0 xs = map (\<lambda>i. (i, xs ! i)) [0..<length xs]"
  by (rule nth_equalityI) (simp_all add: nth_enumerate_eq)

lemma lapsInRange_positions:
  "lapsInRange a start end =
     map (\<lambda>i. (i, laps a ! i)) (filter (\<lambda>i. inRange start end (laps a ! i)) [0..<length (laps a)])"
  by (simp add: lapsInRange_def lapObjects_def enumerate_nth filter_map comp_def)

lemma spec_lapTimes_from_positions:
  "spec_lapTimes_from p xs =
     map (\<lambda>i. if 0 < i then totalTime (xs ! i) - totalTime (xs ! (i - 1))
               else totalTime (xs ! i) - p) [0..<length xs]"
proof (induction xs arbitrary: p)
  case Nil
  then show ?case by simp
next
  case (Cons x xs)
  have "[0..<length (x # xs)] = 0 # map Suc [0..<length xs]"
    using upt_conv_Cons [of 0 "Suc (length xs)"] by (simp add: map_Suc_upt del: upt_Suc)
  then show ?case using Cons.IH [of "totalTime x"]
    by (auto simp: comp_def nth_Cons')
qed

lemma report_agrees_when_all_in_range:
  assumes "list_all (inRange start end) (laps a)"
  shows "map row_lapTime (exportRows a start end) = spec_lapTimes (map snd (lapsInRange a start end))"
proof -
  have f: "filter (\<lambda>i. inRange start end (laps a ! i)) [0..<length (laps a)] = [0..<length (laps a)]"
    using assms by (auto simp: list_all_iff intro!: filter_True)
  have "map snd (lapsInRange a start end) = laps a"
    by (simp add: lapsInRange_positions f comp_def map_nth)
  then show ?thesis
    by (simp add: exportRows_def lapsInRange_positions f comp_def lapTime_nth
        spec_lapTimes_def spec_lapTimes_from_positions)
qed

section \<open>Other helper facts\<close>

lemma finished_no_lap:
  "targetDistance a > 0 \<Longrightarrow> laps a \<noteq> [] \<Longrightarrow> totalDistance (last (laps a)) \<ge> targetDistance a
   \<Longrightarrow> calculateNextLap a t now = laps a"
  by (simp add: calculateNextLap_def lastLapDistance_def)

lemma filter_others_map:
  assumes "\<And>a. athlete_id a \<noteq> i \<Longrightarrow> f a = a"
    and "\<And>a. athlete_id a = i \<Longrightarrow> athlete_id (f a) = i"
  shows "filter (\<lambda>a. athlete_id a \<noteq> i) (map f as) = filter (\<lambda>a. athlete_id a \<noteq> i) as"
  using assms by (induction as) auto

section \<open>The 1000 m scenario, step by step\<close>

text \<open>The four calls of the lap calculator, each on the laps the call before returned.\<close>

lemma calculator_scenario_1000_by_400:
  assumes "targetDistance a = 1000" and "lapDistance a = 400" and "laps a = []"
  shows "calculateNextLap a 60000 n1 =
           [\<lparr>lapNumber = 1, totalTime = 60000, totalDistance = 400, timestamp = n1\<rparr>]
       \<and> calculateNextLap (a\<lparr>laps := calculateNextLap a 60000 n1\<rparr>) 130000 n2 =
           [\<lparr>lapNumber = 1, totalTime = 60000, totalDistance = 400, timestamp = n1\<rparr>,
            \<lparr>lapNumber = 2, totalTime = 130000, totalDistance = 800, timestamp = n2\<rparr>]
       \<and> calculateNextLap
             (a\<lparr>laps := calculateNextLap (a\<lparr>laps := calculateNextLap a 60000 n1\<rparr>) 130000 n2\<rparr>)
             200000 n3 =
           [\<lparr>lapNumber = 1, totalTime = 60000, totalDistance = 400, timestamp = n1\<rparr>,
            \<lparr>lapNumber = 2, totalTime = 130000, totalDistance = 800, timestamp = n2\<rparr>,
            \<lparr>lapNumber = 3, totalTime = 200000, totalDistance = 1000, timestamp = n3\<rparr>]
       \<and> calculateNextLap
             (a\<lparr>laps := calculateNextLap
                 (a\<lparr>laps := calculateNextLap (a\<lparr>laps := calculateNextLap a 60000 n1\<rparr>) 130000 n2\<rparr>)
                 200000 n3\<rparr>)
             t4 n4 =
           [\<lparr>lapNumber = 1, totalTime = 60000, totalDistance = 400, timestamp = n1\<rparr>,
            \<lparr>lapNumber = 2, totalTime = 130000, totalDistance = 800, timestamp = n2\<rparr>,
            \<lparr>lapNumber = 3, totalTime = 200000, totalDistance = 1000, timestamp = n3\<rparr>]"
  using assms by (simp add: calculateNextLap_def lastLapDistance_def newTotalDistance_def)

text \<open>One call of the lap calculator at each stage of the race.\<close>

lemma next_lap_first:
  assumes "targetDistance b = 1000" and "lapDistance b = 400" and "laps b = []"
  shows "calculateNextLap b t n =
    [\<lparr>lapNumber = 1, totalTime = t, totalDistance = 400, timestamp = n\<rparr>]"
  using assms by (simp add: calculateNextLap_def lastLapDistance_def newTotalDistance_def)

lemma next_lap_second:
  assumes "targetDistance b = 1000" and "lapDistance b = 400"
    and "laps b = [l1]" and "totalDistance l1 = 400"
  shows "calculateNextLap b t n =
    [l1, \<lparr>lapNumber = 2, totalTime = t, totalDistance = 800, timestamp = n\<rparr>]"
  using assms by (simp add: calculateNextLap_def lastLapDistance_def newTotalDistance_def)

lemma next_lap_third:
  assumes "targetDistance b = 1000" and "lapDistance b = 400"
    and "laps b = [l1, l2]" and "totalDistance l2 = 800"
  shows "calculateNextLap b t n =
    [l1, l2, \<lparr>lapNumber = 3, totalTime = t, totalDistance = 1000, timestamp = n\<rparr>]"
  using assms by (simp add: calculateNextLap_def lastLapDistance_def newTotalDistance_def)

lemma next_lap_fourth:
  assumes "targetDistance b = 1000" and "laps b = [l1, l2, l3]" and "totalDistance l3 = 1000"
  shows "calculateNextLap b t n = [l1, l2, l3]"
  using assms by (simp add: calculateNextLap_def lastLapDistance_def)

text \<open>
  A refresh tick followed by a lap command, seen at the position of a running athlete
  with the command's id: the tick sets the elapsed time, the lap command stores what
  the lap calculator returns for it; nothing else of the athlete changes.
\<close>

lemma tick_lap_step:
  assumes "k < length (athletes s)"
    and "athlete_id (athletes s ! k) = i"
    and "isRunning (athletes s ! k)"
    and "startTime (athletes s ! k) = Some st" and "st \<noteq> 0"
  shows "k < length (athletes (exec (Lap i n) (exec (Tick now) s)))"
    and "athlete_id (athletes (exec (Lap i n) (exec (Tick now) s)) ! k) = i"
    and "isRunning (athletes (exec (Lap i n) (exec (Tick now) s)) ! k)"
    and "startTime (athletes (exec (Lap i n) (exec (Tick now) s)) ! k) = Some st"
    and "targetDistance (athletes (exec (Lap i n) (exec (Tick now) s)) ! k)
           = targetDistance (athletes s ! k)"
    and "lapDistance (athletes (exec (Lap i n) (exec (Tick now) s)) ! k)
           = lapDistance (athletes s ! k)"
    and "laps (athletes (exec (Lap i n) (exec (Tick now) s)) ! k)
           = calculateNextLap ((athletes s ! k)\<lparr>time := now - st\<rparr>) (now - st) n"
  using assms by (simp_all add: handleLap_def updateTimers_def)

section \<open>The claims\<close>

text \<open>
  C1, as amended. For every athlete and every lap of the athlete in the date range, the
  lap time written to the report is the lap's total time minus the total time of the
  lap just before it in the athlete's whole lap list, whether or not that lap is in the
  range; only the lap at position 0 of the whole list gets its own total time. The lap
  times of the report are listed by the positions \<open>i\<close> of the laps in range.
\<close>

theorem report_lapTime_from_full_list:
  "map row_lapTime (exportRows a start end) =
     map (\<lambda>i. if 0 < i then totalTime (laps a ! i) - totalTime (laps a ! (i - 1))
               else totalTime (laps a ! i))
         (filter (\<lambda>i. inRange start end (laps a ! i)) [0..<length (laps a)])"
  by (simp add: exportRows_def lapsInRange_positions comp_def lapTime_nth)

text \<open>
  C1 as stated fails: with the first lap before the start of the range, the only lap in
  range is reported with 130000 - 60000 = 70000, not with its own total time 130000.
\<close>

theorem report_lapTime_not_within_filtered:
  "map row_lapTime (exportRows late_range_athlete 2000 None) = [70000]
   \<and> spec_lapTimes (map snd (lapsInRange late_range_athlete 2000 None)) = [130000]"
  by code_simp

text \<open>
  C2, as amended. In every state reached from the empty application by commands that
  give no negative lap distance and whose edits never put the target distance below the
  distance of a lap the edited athlete already has, every athlete's lap distances are
  non-decreasing from each lap to the next, and an athlete in distance mode has no lap
  beyond the target distance.
\<close>

theorem distances_nondecreasing_and_bounded:
  assumes "covered_run emptyApp cs" and "a \<in> set (athletes (run emptyApp cs))"
  shows "(\<forall>i. i + 1 < length (laps a) \<longrightarrow>
            totalDistance (laps a ! i) \<le> totalDistance (laps a ! (i + 1)))
       \<and> (targetDistance a > 0 \<longrightarrow>
            (\<forall>l\<in>set (laps a). totalDistance l \<le> targetDistance a))"
proof -
  have "\<forall>a\<in>set (athletes (run emptyApp cs)). distances_ok a"
    by (rule distances_ok_run) (simp_all add: emptyApp_athletes assms(1))
  with assms(2) have ok: "distances_ok a" by blast
  then have srt: "sorted (map totalDistance (laps a))" by (simp add: distances_ok_def)
  have "totalDistance (laps a ! i) \<le> totalDistance (laps a ! (i + 1))"
    if "i + 1 < length (laps a)" for i
    using sorted_nth_mono [OF srt, of i "i + 1"] that by simp
  moreover have "\<forall>l\<in>set (laps a). totalDistance l \<le> targetDistance a" if "targetDistance a > 0"
    using ok that by (auto simp: distances_ok_def list_all_iff)
  ultimately show ?thesis by blast
qed

theorem distances_nondecreasing_and_bounded_witness:
  "covered_run emptyApp training_run
   \<and> athletes (run emptyApp training_run) ! 0 \<in> set (athletes (run emptyApp training_run))
   \<and> totalDistance (laps (athletes (run emptyApp training_run) ! 0) ! 1)
       \<le> totalDistance (laps (athletes (run emptyApp training_run) ! 0) ! 2)
   \<and> targetDistance (athletes (run emptyApp training_run) ! 0) > 0
   \<and> laps (athletes (run emptyApp training_run) ! 0) ! 2
       \<in> set (laps (athletes (run emptyApp training_run) ! 0))
   \<and> totalDistance (laps (athletes (run emptyApp training_run) ! 0) ! 2)
       \<le> targetDistance (athletes (run emptyApp training_run) ! 0)"
proof -
  let ?a = "athletes (run emptyApp training_run) ! 0"
  have c: "covered_run emptyApp training_run" by code_simp
  have m: "?a \<in> set (athletes (run emptyApp training_run))" by code_simp
  have n: "1 + 1 < length (laps ?a)" by code_simp
  have t: "targetDistance ?a > 0" by code_simp
  have l: "laps ?a ! 2 \<in> set (laps ?a)" by code_simp
  from distances_nondecreasing_and_bounded [OF c m] n t l
  have "totalDistance (laps ?a ! 1) \<le> totalDistance (laps ?a ! (1 + 1))"
    and "totalDistance (laps ?a ! 2) \<le> targetDistance ?a"
    by blast+
  with c m t l show ?thesis by (simp add: numeral_2_eq_2)
qed

text \<open>
  C2 as stated fails: after two laps at 400 and 800, an edit to target 0, a third lap
  and an edit to target 500, the athlete is in distance mode with a lap of 800 beyond
  the target 500, and the lap after the one of 800 has distance 0.
\<close>

theorem edit_breaks_distance_invariant:
  "length (athletes (run emptyApp shrinking_run)) = 1
   \<and> length (laps (athletes (run emptyApp shrinking_run) ! 0)) = 3
   \<and> targetDistance (athletes (run emptyApp shrinking_run) ! 0) > 0
   \<and> \<not> totalDistance (laps (athletes (run emptyApp shrinking_run) ! 0) ! 1)
         \<le> targetDistance (athletes (run emptyApp shrinking_run) ! 0)
   \<and> \<not> totalDistance (laps (athletes (run emptyApp shrinking_run) ! 0) ! 1)
         \<le> totalDistance (laps (athletes (run emptyApp shrinking_run) ! 0) ! (1 + 1))"
  by code_simp

text \<open>
  C3, as amended. In every state reached from the empty application by commands whose
  edits never set the target distance to 0 for an athlete that has a lap with a distance
  other than 0, every lap of an athlete in simple mode (target distance 0) has
  distance 0.
\<close>

theorem simple_mode_distances_zero:
  assumes "clean_run emptyApp cs" and "a \<in> set (athletes (run emptyApp cs))"
    and "targetDistance a = 0" and "l \<in> set (laps a)"
  shows "totalDistance l = 0"
proof -
  have "\<forall>a\<in>set (athletes (run emptyApp cs)). simple_ok a"
    by (rule simple_ok_run) (simp_all add: emptyApp_athletes assms(1))
  with assms(2) have "simple_ok a" by blast
  with assms(3,4) show ?thesis by (simp add: simple_ok_def list_all_iff)
qed

theorem simple_mode_distances_zero_witness:
  "clean_run emptyApp training_run
   \<and> athletes (run emptyApp training_run) ! 1 \<in> set (athletes (run emptyApp training_run))
   \<and> targetDistance (athletes (run emptyApp training_run) ! 1) = 0
   \<and> laps (athletes (run emptyApp training_run) ! 1) ! 1
       \<in> set (laps (athletes (run emptyApp training_run) ! 1))
   \<and> totalDistance (laps (athletes (run emptyApp training_run) ! 1) ! 1) = 0"
proof -
  let ?b = "athletes (run emptyApp training_run) ! 1"
  have c: "clean_run emptyApp training_run" by code_simp
  have m: "?b \<in> set (athletes (run emptyApp training_run))" by code_simp
  have t: "targetDistance ?b = 0" by code_simp
  have l: "laps ?b ! 1 \<in> set (laps ?b)" by code_simp
  from simple_mode_distances_zero [OF c m t l] c m t l show ?thesis by simp
qed

text \<open>
  C3 as stated fails: an athlete that recorded a lap of 400 in distance mode and is
  then edited to target distance 0 is in simple mode with a lap of distance 400.
\<close>

theorem edit_breaks_simple_mode_invariant:
  "length (athletes (run emptyApp mode_switch_run)) = 1
   \<and> length (laps (athletes (run emptyApp mode_switch_run) ! 0)) = 1
   \<and> targetDistance (athletes (run emptyApp mode_switch_run) ! 0) = 0
   \<and> totalDistance (laps (athletes (run emptyApp mode_switch_run) ! 0) ! 0) = 400"
  by code_simp

text \<open>
  C4. In every state reached from the empty application by any commands, the lap at
  position \<open>i\<close> of an athlete's lap list has lap number \<open>i + 1\<close>.
\<close>

theorem lap_numbers_consecutive:
  assumes "a \<in> set (athletes (run emptyApp cs))" and "i < length (laps a)"
  shows "lapNumber (laps a ! i) = int i + 1"
proof -
  have "\<forall>a\<in>set (athletes (run emptyApp cs)). numbered (laps a)"
    by (rule numbered_run) (simp add: emptyApp_athletes)
  with assms(1) have "numbered (laps a)" by blast
  then show ?thesis using assms(2) by (rule numbered_nth)
qed

theorem lap_numbers_consecutive_witness:
  "athletes (run emptyApp training_run) ! 0 \<in> set (athletes (run emptyApp training_run))
   \<and> 2 < length (laps (athletes (run emptyApp training_run) ! 0))
   \<and> lapNumber (laps (athletes (run emptyApp training_run) ! 0) ! 2) = 3"
proof -
  have m: "athletes (run emptyApp training_run) ! 0 \<in> set (athletes (run emptyApp training_run))"
    by code_simp
  have l: "2 < length (laps (athletes (run emptyApp training_run) ! 0))"
    by code_simp
  from lap_numbers_consecutive [OF m l] m l show ?thesis by simp
qed

text \<open>
  C5. For an athlete in distance mode whose last lap has reached the target distance,
  the lap calculator returns the athlete's laps as they are, for every elapsed time;
  neither the lap command nor the start/stop command changes the laps of such an
  athlete, wherever it stands in the list.
\<close>

theorem finished_race_gets_no_lap:
  assumes "k < length as"
    and "targetDistance (as ! k) > 0"
    and "laps (as ! k) \<noteq> []"
    and "totalDistance (last (laps (as ! k))) \<ge> targetDistance (as ! k)"
  shows "calculateNextLap (as ! k) t now = laps (as ! k)
       \<and> laps (handleLap i now as ! k) = laps (as ! k)
       \<and> laps (handleStartStop i now as ! k) = laps (as ! k)"
  using assms by (simp add: finished_no_lap handleLap_def handleStartStop_def)

theorem finished_race_gets_no_lap_witness:
  "(0::nat) < length [finished_miler\<lparr>isRunning := True\<rparr>]
   \<and> targetDistance ([finished_miler\<lparr>isRunning := True\<rparr>] ! 0) > 0
   \<and> laps ([finished_miler\<lparr>isRunning := True\<rparr>] ! 0) \<noteq> []
   \<and> totalDistance (last (laps ([finished_miler\<lparr>isRunning := True\<rparr>] ! 0)))
       \<ge> targetDistance ([finished_miler\<lparr>isRunning := True\<rparr>] ! 0)
   \<and> calculateNextLap ([finished_miler\<lparr>isRunning := True\<rparr>] ! 0) 260000 261000
       = laps finished_miler
   \<and> laps (handleLap 0 261000 [finished_miler\<lparr>isRunning := True\<rparr>] ! 0) = laps finished_miler
   \<and> laps (handleStartStop 0 261000 [finished_miler\<lparr>isRunning := True\<rparr>] ! 0)
       = laps finished_miler"
proof -
  let ?as = "[finished_miler\<lparr>isRunning := True\<rparr>]"
  have k: "(0::nat) < length ?as" by simp
  have t: "targetDistance (?as ! 0) > 0" by (simp add: finished_miler_def miler_def)
  have n: "laps (?as ! 0) \<noteq> []" by (simp add: finished_miler_def)
  have d: "totalDistance (last (laps (?as ! 0))) \<ge> targetDistance (?as ! 0)"
    by (simp add: finished_miler_def miler_def)
  from finished_race_gets_no_lap [OF k t n d, of 260000 261000 0] k t n d
  show ?thesis by simp
qed

text \<open>
  C6. An athlete with target distance 1000, lap distance 400 and no laps is running,
  its timer started at clock value \<open>st\<close>. Refresh ticks bring its elapsed time to
  60000, 130000 and 200000, each followed by a lap command. After the first lap command
  its laps are exactly the lap (1, 60000, 400); after the second, that lap and
  (2, 130000, 800); after the third, those two and (3, 200000, 1000), the distance set to
  the target although 800 + 400 is beyond it. A fourth lap command, at any elapsed
  time, leaves these three laps as they are. The time stamps are the clock values read
  by the lap commands.
\<close>

theorem lap_commands_scenario_1000_by_400:
  assumes k: "k < length (athletes s)"
    and i: "athlete_id (athletes s ! k) = i"
    and r: "isRunning (athletes s ! k)"
    and st: "startTime (athletes s ! k) = Some st" "st \<noteq> 0"
    and td: "targetDistance (athletes s ! k) = 1000"
    and ld: "lapDistance (athletes s ! k) = 400"
    and l0: "laps (athletes s ! k) = []"
  shows "laps (athletes (run s [Tick (st + 60000), Lap i n1]) ! k) =
           [\<lparr>lapNumber = 1, totalTime = 60000, totalDistance = 400, timestamp = n1\<rparr>]
       \<and> laps (athletes (run s [Tick (st + 60000), Lap i n1,
                                 Tick (st + 130000), Lap i n2]) ! k) =
           [\<lparr>lapNumber = 1, totalTime = 60000, totalDistance = 400, timestamp = n1\<rparr>,
            \<lparr>lapNumber = 2, totalTime = 130000, totalDistance = 800, timestamp = n2\<rparr>]
       \<and> laps (athletes (run s [Tick (st + 60000), Lap i n1,
                                 Tick (st + 130000), Lap i n2,
                                 Tick (st + 200000), Lap i n3]) ! k) =
           [\<lparr>lapNumber = 1, totalTime = 60000, totalDistance = 400, timestamp = n1\<rparr>,
            \<lparr>lapNumber = 2, totalTime = 130000, totalDistance = 800, timestamp = n2\<rparr>,
            \<lparr>lapNumber = 3, totalTime = 200000, totalDistance = 1000, timestamp = n3\<rparr>]
       \<and> laps (athletes (run s [Tick (st + 60000), Lap i n1,
                                 Tick (st + 130000), Lap i n2,
                                 Tick (st + 200000), Lap i n3,
                                 Tick t4, Lap i n4]) ! k) =
           [\<lparr>lapNumber = 1, totalTime = 60000, totalDistance = 400, timestamp = n1\<rparr>,
            \<lparr>lapNumber = 2, totalTime = 130000, totalDistance = 800, timestamp = n2\<rparr>,
            \<lparr>lapNumber = 3, totalTime = 200000, totalDistance = 1000, timestamp = n3\<rparr>]"
proof -
  define s1 where "s1 = exec (Lap i n1) (exec (Tick (st + 60000)) s)"
  define s2 where "s2 = exec (Lap i n2) (exec (Tick (st + 130000)) s1)"
  define s3 where "s3 = exec (Lap i n3) (exec (Tick (st + 200000)) s2)"
  define s4 where "s4 = exec (Lap i n4) (exec (Tick t4) s3)"
  let ?l1 = "\<lparr>lapNumber = 1, totalTime = 60000, totalDistance = 400, timestamp = n1\<rparr>"
  let ?l2 = "\<lparr>lapNumber = 2, totalTime = 130000, totalDistance = 800, timestamp = n2\<rparr>"
  let ?l3 = "\<lparr>lapNumber = 3, totalTime = 200000, totalDistance = 1000, timestamp = n3\<rparr>"
  note a1 = tick_lap_step [OF k i r st, of n1 "st + 60000", folded s1_def]
  have td1: "targetDistance (athletes s1 ! k) = 1000" and ld1: "lapDistance (athletes s1 ! k) = 400"
    using a1(5,6) td ld by simp_all
  have l1: "laps (athletes s1 ! k) = [?l1]"
    using a1(7) next_lap_first [of "(athletes s ! k)\<lparr>time := st + 60000 - st\<rparr>" 60000 n1] td ld l0
    by simp
  note a2 = tick_lap_step [OF a1(1,2,3,4) st(2), of n2 "st + 130000", folded s2_def]
  have td2: "targetDistance (athletes s2 ! k) = 1000" and ld2: "lapDistance (athletes s2 ! k) = 400"
    using a2(5,6) td1 ld1 by simp_all
  have l2: "laps (athletes s2 ! k) = [?l1, ?l2]"
    using a2(7) next_lap_second [of "(athletes s1 ! k)\<lparr>time := st + 130000 - st\<rparr>" ?l1 130000 n2]
      td1 ld1 l1
    by simp
  note a3 = tick_lap_step [OF a2(1,2,3,4) st(2), of n3 "st + 200000", folded s3_def]
  have td3: "targetDistance (athletes s3 ! k) = 1000"
    using a3(5) td2 by simp
  have l3: "laps (athletes s3 ! k) = [?l1, ?l2, ?l3]"
    using a3(7) next_lap_third [of "(athletes s2 ! k)\<lparr>time := st + 200000 - st\<rparr>" ?l1 ?l2 200000 n3]
      td2 ld2 l2
    by simp
  note a4 = tick_lap_step [OF a3(1,2,3,4) st(2), of n4 t4, folded s4_def]
  have l4: "laps (athletes s4 ! k) = [?l1, ?l2, ?l3]"
    using a4(7) next_lap_fourth [of "(athletes s3 ! k)\<lparr>time := t4 - st\<rparr>" ?l1 ?l2 ?l3 "t4 - st" n4]
      td3 l3
    by simp
  have r1: "run s [Tick (st + 60000), Lap i n1] = s1"
    unfolding s1_def by (simp only: run.simps)
  have r2: "run s [Tick (st + 60000), Lap i n1, Tick (st + 130000), Lap i n2] = s2"
    unfolding s2_def s1_def by (simp only: run.simps)
  have r3: "run s [Tick (st + 60000), Lap i n1, Tick (st + 130000), Lap i n2,
                   Tick (st + 200000), Lap i n3] = s3"
    unfolding s3_def s2_def s1_def by (simp only: run.simps)
  have r4: "run s [Tick (st + 60000), Lap i n1, Tick (st + 130000), Lap i n2,
                   Tick (st + 200000), Lap i n3, Tick t4, Lap i n4] = s4"
    unfolding s4_def s3_def s2_def s1_def by (simp only: run.simps)
  show ?thesis unfolding r1 r2 r3 r4 using l1 l2 l3 l4 by (intro conjI)
qed

theorem lap_commands_scenario_1000_by_400_witness:
  "(0::nat) < length (athletes started_miler_app)
   \<and> athlete_id (athletes started_miler_app ! 0) = 0
   \<and> isRunning (athletes started_miler_app ! 0)
   \<and> startTime (athletes started_miler_app ! 0) = Some 1000 \<and> (1000::int) \<noteq> 0
   \<and> targetDistance (athletes started_miler_app ! 0) = 1000
   \<and> lapDistance (athletes started_miler_app ! 0) = 400
   \<and> laps (athletes started_miler_app ! 0) = []
   \<and> laps (athletes (run started_miler_app
              [Tick (1000 + 60000), Lap 0 61000, Tick (1000 + 130000), Lap 0 131000,
               Tick (1000 + 200000), Lap 0 201000, Tick 261000, Lap 0 261000]) ! 0)
       = laps finished_miler"
proof -
  have k: "(0::nat) < length (athletes started_miler_app)" by code_simp
  have i: "athlete_id (athletes started_miler_app ! 0) = 0" by code_simp
  have r: "isRunning (athletes started_miler_app ! 0)" by code_simp
  have st: "startTime (athletes started_miler_app ! 0) = Some 1000" by code_simp
  have nz: "(1000::int) \<noteq> 0" by simp
  have td: "targetDistance (athletes started_miler_app ! 0) = 1000" by code_simp
  have ld: "lapDistance (athletes started_miler_app ! 0) = 400" by code_simp
  have l0: "laps (athletes started_miler_app ! 0) = []" by code_simp
  have f: "laps finished_miler =
      [\<lparr>lapNumber = 1, totalTime = 60000, totalDistance = 400, timestamp = 61000\<rparr>,
       \<lparr>lapNumber = 2, totalTime = 130000, totalDistance = 800, timestamp = 131000\<rparr>,
       \<lparr>lapNumber = 3, totalTime = 200000, totalDistance = 1000, timestamp = 201000\<rparr>]"
    by (simp add: finished_miler_def)
  from lap_commands_scenario_1000_by_400 [OF k i r st nz td ld l0, of 61000 131000 201000 261000 261000]
  have "laps (athletes (run started_miler_app
              [Tick (1000 + 60000), Lap 0 61000, Tick (1000 + 130000), Lap 0 131000,
               Tick (1000 + 200000), Lap 0 201000, Tick 261000, Lap 0 261000]) ! 0)
       = laps finished_miler"
    unfolding f by (elim conjE)
  with k i r st nz td ld l0 show ?thesis by (intro conjI)
qed

text \<open>
  C7. Saving an athlete list and loading it again gives, athlete by athlete, a stopped
  athlete (\<open>isRunning\<close> false, no \<open>startTime\<close>) with the time and the laps that were
  saved, whatever the run state at the time of saving.
\<close>

theorem save_load_round_trip:
  "map isRunning (loadAthletes (saveAthletes as)) = map (\<lambda>a. False) as
   \<and> map startTime (loadAthletes (saveAthletes as)) = map (\<lambda>a. None) as
   \<and> map time (loadAthletes (saveAthletes as)) = map time as
   \<and> map laps (loadAthletes (saveAthletes as)) = map laps as"
  by (simp add: loadAthletes_def saveAthletes_def comp_def loadAthlete_storeAthlete)

text \<open>
  C8. Starting a stopped athlete whose time is 0 and stopping it at once leaves the
  time 0 and the athlete stopped; if the athlete is in distance mode, has a lap distance
  of at most the target distance and has no laps, its laps afterwards are exactly one
  lap, with total time 0 and distance the smaller of lap distance and target distance.
\<close>

theorem start_then_stop:
  assumes "k < length as"
    and "athlete_id (as ! k) = i"
    and "\<not> isRunning (as ! k)"
    and "time (as ! k) = 0"
  shows "time (handleStartStop i n2 (handleStartStop i n1 as) ! k) = 0
       \<and> \<not> isRunning (handleStartStop i n2 (handleStartStop i n1 as) ! k)
       \<and> (targetDistance (as ! k) > 0 \<and> lapDistance (as ! k) \<le> targetDistance (as ! k)
            \<and> laps (as ! k) = []
          \<longrightarrow> laps (handleStartStop i n2 (handleStartStop i n1 as) ! k) =
                [\<lparr> lapNumber = 1, totalTime = 0,
                    totalDistance = min (lapDistance (as ! k)) (targetDistance (as ! k)),
                    timestamp = n2 \<rparr>])"
  using assms
  by (simp add: handleStartStop_def calculateNextLap_def lastLapDistance_def newTotalDistance_def)

theorem start_then_stop_witness:
  "(0::nat) < length [miler] \<and> athlete_id ([miler] ! 0) = 0 \<and> \<not> isRunning ([miler] ! 0)
   \<and> time ([miler] ! 0) = 0 \<and> targetDistance ([miler] ! 0) > 0
   \<and> lapDistance ([miler] ! 0) \<le> targetDistance ([miler] ! 0) \<and> laps ([miler] ! 0) = []
   \<and> time (handleStartStop 0 5000 (handleStartStop 0 5000 [miler]) ! 0) = 0
   \<and> laps (handleStartStop 0 5000 (handleStartStop 0 5000 [miler]) ! 0) =
        [\<lparr> lapNumber = 1, totalTime = 0, totalDistance = 400, timestamp = 5000 \<rparr>]"
proof -
  have k: "(0::nat) < length [miler]" by simp
  have i: "athlete_id ([miler] ! 0) = 0" by (simp add: miler_def)
  have r: "\<not> isRunning ([miler] ! 0)" by (simp add: miler_def)
  have t: "time ([miler] ! 0) = 0" by (simp add: miler_def)
  have m: "targetDistance ([miler] ! 0) > 0
      \<and> lapDistance ([miler] ! 0) \<le> targetDistance ([miler] ! 0) \<and> laps ([miler] ! 0) = []"
    by (simp add: miler_def)
  have v: "min (lapDistance ([miler] ! 0)) (targetDistance ([miler] ! 0)) = 400"
    by (simp add: miler_def)
  from start_then_stop [OF k i r t, of 5000 5000] m
  have "time (handleStartStop 0 5000 (handleStartStop 0 5000 [miler]) ! 0) = 0"
    and "laps (handleStartStop 0 5000 (handleStartStop 0 5000 [miler]) ! 0) =
        [\<lparr> lapNumber = 1, totalTime = 0,
            totalDistance = min (lapDistance ([miler] ! 0)) (targetDistance ([miler] ! 0)),
            timestamp = 5000 \<rparr>]"
    by blast+
  with k i r t m v show ?thesis by simp
qed

text \<open>
  C9. A command aimed at one athlete id (remove, start/stop, lap, reset, edit) leaves
  the athletes with any other id as they were: the same athletes, with all fields
  unchanged, in the same order.
\<close>

theorem other_athletes_unchanged:
  assumes "target c = Some i"
  shows "filter (\<lambda>a. athlete_id a \<noteq> i) (athletes (exec c s))
       = filter (\<lambda>a. athlete_id a \<noteq> i) (athletes s)"
proof (cases c)
  case (Remove j)
  with assms show ?thesis by (simp add: handleRemoveAthlete_def)
next
  case (StartStop j now)
  with assms show ?thesis by (simp add: handleStartStop_def filter_others_map)
next
  case (Lap j now)
  with assms show ?thesis by (simp add: handleLap_def filter_others_map)
next
  case (Reset j)
  with assms show ?thesis by (simp add: handleReset_def filter_others_map)
next
  case (Edit j d)
  with assms show ?thesis by (simp add: handleUpdateAthlete_def filter_others_map)
qed (use assms in simp_all)

theorem other_athletes_unchanged_witness:
  "target (Reset 0) = Some 0
   \<and> filter (\<lambda>a. athlete_id a \<noteq> 0) (athletes (exec (Reset 0) (run emptyApp training_run)))
     = filter (\<lambda>a. athlete_id a \<noteq> 0) (athletes (run emptyApp training_run))
   \<and> length (filter (\<lambda>a. athlete_id a \<noteq> 0) (athletes (run emptyApp training_run))) = 1"
proof -
  have t: "target (Reset 0) = Some 0" by simp
  have n: "length (filter (\<lambda>a. athlete_id a \<noteq> 0) (athletes (run emptyApp training_run))) = 1"
    by code_simp
  from other_athletes_unchanged [OF t, of "run emptyApp training_run"] t n
  show ?thesis by simp
qed

text \<open>
  C10. Loading a stored athlete whose lap distance is 0 gives lap distance 400, and
  gives the same athlete as loading it with the lap distance missing.
\<close>

theorem load_zero_lapDistance:
  "lapDistance (loadAthlete (p\<lparr> sa_lapDistance := Some 0 \<rparr>)) = 400
   \<and> loadAthlete (p\<lparr> sa_lapDistance := Some 0 \<rparr>) = loadAthlete (p\<lparr> sa_lapDistance := None \<rparr>)"
  by (simp add: loadAthlete_def opt_or_def num_or_def)

end
